theory Spec2Isabelle
  imports Complex_Main "HOL-Library.AList"
begin

section \<open>Python values shared by the three components\<close>

text \<open>
  A \<open>datetime\<close> is a point on the clock, counted in microseconds (the resolution of
  Python's \<open>datetime\<close>); \<open>timedelta(hours=h)\<close> is \<open>h\<close> hours in that unit. Every
  \<open>datetime.utcnow()\<close> of the source is a clock reading handed to the modelled function as
  an argument, one argument per read, in the order the source reads the clock.
\<close>

type_synonym datetime = int

definition timedelta_hours :: "int \<Rightarrow> int" where
  "timedelta_hours h = h * 3600000000"

datatype py_error = KeyError | AttributeError

text \<open>
  A \<open>dict\<close> is an association list in insertion order: \<open>d.get(k)\<close> is \<open>map_of d k\<close>,
  \<open>d[k] = v\<close> is \<open>AList.update k v d\<close> (it replaces the value of a key that is present and
  appends a new key), \<open>d.get(k, dflt)\<close> is \<open>dict_get d k dflt\<close>.
\<close>

definition dict_get :: "('k \<times> 'v) list \<Rightarrow> 'k \<Rightarrow> 'v \<Rightarrow> 'v" where
  "dict_get d k dflt = (case map_of d k of Some v \<Rightarrow> v | None \<Rightarrow> dflt)"

section \<open>ApprovalManager (src/riskAssessment/approval\_manager.py)\<close>

datatype ApprovalStatus = PENDING | APPROVED | REJECTED | EXPIRED | CANCELLED

record ApprovalRequest =
  request_id :: string
  operation_summary :: string
  risk_level :: string
  requester :: string
  approvers :: "string list"
  status :: ApprovalStatus
  created_at :: datetime
  expires_at :: datetime
  approved_by :: "string option"
  approved_at :: "datetime option"
  rejection_reason :: "string option"

text \<open>
  \<open>ApprovalRequest.__init__\<close>: the status starts as PENDING, \<open>created_at\<close> is a clock
  reading of its own, the three decision fields start as \<open>None\<close>.
\<close>

definition ApprovalRequest_init ::
  "string \<Rightarrow> string \<Rightarrow> string \<Rightarrow> string \<Rightarrow> string list \<Rightarrow> datetime \<Rightarrow> datetime \<Rightarrow> ApprovalRequest" where
  "ApprovalRequest_init rid summary level req apprs expires now =
     \<lparr> request_id = rid, operation_summary = summary, risk_level = level,
       requester = req, approvers = apprs, status = PENDING, created_at = now,
       expires_at = expires, approved_by = None, approved_at = None,
       rejection_reason = None \<rparr>"

text \<open>
  One entry of \<open>approval_policies\<close>. The keys \<open>required\<close>, \<open>approvers_needed\<close> and
  \<open>timeout_hours\<close> are in every entry; \<open>eligible_approvers\<close> is absent from the LOW entry,
  hence the option.
\<close>

record policy =
  required :: bool
  approvers_needed :: int
  timeout_hours :: int
  eligible_approvers :: "string list option"

text \<open>
  The manager. \<open>approval_requests\<close> maps a request id to a reference to an
  \<open>ApprovalRequest\<close> object; \<open>objects\<close> is the store of these objects, a reference
  being an index into it. An object is allocated at the end of the store by
  \<open>create_approval_request\<close> and is never removed: a second \<open>create\<close> under the same id
  rebinds the id to a new object and leaves the old object as it is. The lists inside
  \<open>approval_policies\<close> are mutable objects owned by the table; the mutation of such a list
  is an update of its table entry.
\<close>

record ApprovalManager =
  approval_policies :: "(string \<times> policy) list"
  approval_requests :: "(string \<times> nat) list"
  objects :: "ApprovalRequest list"

definition ApprovalManager_init :: ApprovalManager where
  "ApprovalManager_init =
     \<lparr> approval_policies =
         [(''LOW'', \<lparr> required = False, approvers_needed = 0, timeout_hours = 0,
                     eligible_approvers = None \<rparr>),
          (''MEDIUM'', \<lparr> required = True, approvers_needed = 1, timeout_hours = 24,
                     eligible_approvers = Some [''ops_lead'', ''senior_engineer''] \<rparr>),
          (''HIGH'', \<lparr> required = True, approvers_needed = 2, timeout_hours = 12,
                     eligible_approvers = Some [''ops_manager'', ''engineering_manager''] \<rparr>),
          (''CRITICAL'', \<lparr> required = True, approvers_needed = 2, timeout_hours = 4,
                     eligible_approvers = Some [''ops_director'', ''cto'', ''vp_engineering''] \<rparr>)],
       approval_requests = [],
       objects = [] \<rparr>"

text \<open>
  \<open>list(set(xs))\<close>: the elements of \<open>xs\<close> without duplicates. Python leaves the order of
  the result to the hashes of the strings; the model keeps the order of first occurrence,
  and no claim below depends on the order.
\<close>

definition list_of_set :: "string list \<Rightarrow> string list" where
  "list_of_set xs = remdups xs"

text \<open>
  \<open>_get_eligible_approvers\<close>. The default argument \<open>self.approval_policies["HIGH"]\<close> is
  evaluated before the lookup, so a table without a HIGH entry raises \<open>KeyError\<close>.
  \<open>base_approvers\<close> is the very list held by the policy that was found (the entry of
  \<open>risk_level\<close>, or the HIGH entry when the level is not a key), so
  \<open>base_approvers.extend([...])\<close> changes that entry of the table; when the policy has no
  \<open>eligible_approvers\<close> the list is the fresh default \<open>["ops_manager"]\<close> and the table is
  untouched.
\<close>

definition get_eligible_approvers ::
  "ApprovalManager \<Rightarrow> string \<Rightarrow> string \<Rightarrow> py_error + (string list \<times> ApprovalManager)" where
  "get_eligible_approvers m level environment =
     (case map_of (approval_policies m) ''HIGH'' of
        None \<Rightarrow> Inl KeyError
      | Some high \<Rightarrow>
          let key = (case map_of (approval_policies m) level of
                       Some _ \<Rightarrow> level | None \<Rightarrow> ''HIGH'');
              pol = dict_get (approval_policies m) level high;
              escalate = (environment = ''prod'' \<and> level \<in> set [''HIGH'', ''CRITICAL''])
          in case eligible_approvers pol of
               None \<Rightarrow>
                 let base_approvers = [''ops_manager''];
                     base_approvers = (if escalate
                                       then base_approvers @ [''cto'', ''vp_engineering'']
                                       else base_approvers)
                 in Inr (list_of_set base_approvers, m)
             | Some base_approvers \<Rightarrow>
                 if escalate
                 then let extended = base_approvers @ [''cto'', ''vp_engineering'']
                      in Inr (list_of_set extended,
                              m\<lparr> approval_policies :=
                                   AList.update key (pol\<lparr> eligible_approvers := Some extended \<rparr>)
                                     (approval_policies m) \<rparr>)
                 else Inr (list_of_set base_approvers, m))"

text \<open>
  \<open>create_approval_request\<close>. \<open>now_expiry\<close> is the clock reading of
  \<open>datetime.utcnow() + timedelta(...)\<close>, \<open>now_created\<close> the later one of the constructor.
  The result is \<open>None\<close> (no approval needed) or the reference of the new object.
  \<open>_notify_approvers\<close> only prints and is left out, as is \<open>_notify_approval_decision\<close>
  below.
\<close>

definition create_approval_request ::
  "ApprovalManager \<Rightarrow> string \<Rightarrow> string \<Rightarrow> string \<Rightarrow> string \<Rightarrow> string \<Rightarrow> datetime \<Rightarrow> datetime
     \<Rightarrow> py_error + (nat option \<times> ApprovalManager)" where
  "create_approval_request m rid summary level req environment now_expiry now_created =
     (case map_of (approval_policies m) ''HIGH'' of
        None \<Rightarrow> Inl KeyError
      | Some high \<Rightarrow>
          let pol = dict_get (approval_policies m) level high
          in if \<not> required pol then Inr (None, m)
             else case get_eligible_approvers m level environment of
                    Inl e \<Rightarrow> Inl e
                  | Inr (eligible, m1) \<Rightarrow>
                      let expires = now_expiry + timedelta_hours (timeout_hours pol);
                          approval_request =
                            ApprovalRequest_init rid summary level req eligible expires now_created;
                          ref = length (objects m1)
                      in Inr (Some ref,
                              m1\<lparr> objects := objects m1 @ [approval_request],
                                  approval_requests :=
                                    AList.update rid ref (approval_requests m1) \<rparr>))"

text \<open>
  \<open>check_approval_status\<close>: \<open>None\<close> for an unknown id, else the reference of the stored
  object, whose status the read may have set to EXPIRED.
\<close>

definition check_approval_status ::
  "ApprovalManager \<Rightarrow> string \<Rightarrow> datetime \<Rightarrow> nat option \<times> ApprovalManager" where
  "check_approval_status m rid now =
     (case map_of (approval_requests m) rid of
        None \<Rightarrow> (None, m)
      | Some a \<Rightarrow>
          let r = objects m ! a
          in if now > expires_at r \<and> status r = PENDING
             then (Some a, m\<lparr> objects := (objects m)[a := r\<lparr> status := EXPIRED \<rparr>] \<rparr>)
             else (Some a, m))"

text \<open>
  \<open>approve_request\<close>: \<open>now_check\<close> is the clock reading of the expiry test, \<open>now_stamp\<close>
  the one stored in \<open>approved_at\<close>. The comments only reach the printed notification.
\<close>

definition approve_request ::
  "ApprovalManager \<Rightarrow> string \<Rightarrow> string \<Rightarrow> string \<Rightarrow> datetime \<Rightarrow> datetime \<Rightarrow> bool \<times> ApprovalManager" where
  "approve_request m rid approver comments now_check now_stamp =
     (case map_of (approval_requests m) rid of
        None \<Rightarrow> (False, m)
      | Some a \<Rightarrow>
          let r = objects m ! a
          in if status r \<noteq> PENDING then (False, m)
             else if approver \<notin> set (approvers r) then (False, m)
             else if now_check > expires_at r
             then (False, m\<lparr> objects := (objects m)[a := r\<lparr> status := EXPIRED \<rparr>] \<rparr>)
             else (True, m\<lparr> objects := (objects m)[a := r\<lparr> status := APPROVED,
                                                            approved_by := Some approver,
                                                            approved_at := Some now_stamp \<rparr>] \<rparr>))"

text \<open>\<open>reject_request\<close> reads no clock.\<close>

definition reject_request ::
  "ApprovalManager \<Rightarrow> string \<Rightarrow> string \<Rightarrow> string \<Rightarrow> bool \<times> ApprovalManager" where
  "reject_request m rid approver reason =
     (case map_of (approval_requests m) rid of
        None \<Rightarrow> (False, m)
      | Some a \<Rightarrow>
          let r = objects m ! a
          in if status r \<noteq> PENDING then (False, m)
             else if approver \<notin> set (approvers r) then (False, m)
             else (True, m\<lparr> objects := (objects m)[a := r\<lparr> status := REJECTED,
                                                            rejection_reason := Some reason \<rparr>] \<rparr>))"

text \<open>
  Every reference held by \<open>approval_requests\<close> points into the store. Python has no
  dangling references, so this holds of every manager the code can build; it is kept by
  every operation (lemma \<open>refs_ok_run_calls\<close>).
\<close>

definition refs_ok :: "ApprovalManager \<Rightarrow> bool" where
  "refs_ok m = list_all (\<lambda>(k, a). a < length (objects m)) (approval_requests m)"

text \<open>
  The table keeps the keys, the \<open>required\<close> flags and the timeouts the constructor gave
  it, and the three entries that have an approver list keep one: the code changes nothing
  of the table but the contents of these lists (lemma \<open>policies_ok_run_calls\<close>).
\<close>

definition policies_ok :: "ApprovalManager \<Rightarrow> bool" where
  "policies_ok m =
     (map (\<lambda>(k, p). (k, required p, timeout_hours p, eligible_approvers p \<noteq> None))
          (approval_policies m) =
      [(''LOW'', False, 0, False), (''MEDIUM'', True, 24, True),
       (''HIGH'', True, 12, True), (''CRITICAL'', True, 4, True)])"

text \<open>The approver list that the HIGH entry of the table holds at the moment.\<close>

definition high_approvers :: "ApprovalManager \<Rightarrow> string list" where
  "high_approvers m =
     (case map_of (approval_policies m) ''HIGH'' of
        None \<Rightarrow> []
      | Some p \<Rightarrow> (case eligible_approvers p of None \<Rightarrow> [] | Some xs \<Rightarrow> xs))"

text \<open>The approver list of the request that a \<open>create_approval_request\<close> call returned.\<close>

definition created_approvers ::
  "py_error + (nat option \<times> ApprovalManager) \<Rightarrow> string list option" where
  "created_approvers res =
     (case res of
        Inr (Some a, m') \<Rightarrow> Some (approvers (objects m' ! a))
      | _ \<Rightarrow> None)"

text \<open>
  A caller of the manager: one value per public method call, and the manager after a
  sequence of calls. A raised exception ends the sequence.
\<close>

datatype call =
    Create string string string string string datetime datetime
  | Check string datetime
  | Approve string string string datetime datetime
  | Reject string string string

fun apply_call :: "ApprovalManager \<Rightarrow> call \<Rightarrow> py_error + ApprovalManager" where
  "apply_call m (Create rid summary level req environment t1 t2) =
     (case create_approval_request m rid summary level req environment t1 t2 of
        Inl e \<Rightarrow> Inl e | Inr (_, m') \<Rightarrow> Inr m')"
| "apply_call m (Check rid now) = Inr (snd (check_approval_status m rid now))"
| "apply_call m (Approve rid approver comments t1 t2) =
     Inr (snd (approve_request m rid approver comments t1 t2))"
| "apply_call m (Reject rid approver reason) = Inr (snd (reject_request m rid approver reason))"

fun run_calls :: "ApprovalManager \<Rightarrow> call list \<Rightarrow> py_error + ApprovalManager" where
  "run_calls m [] = Inr m"
| "run_calls m (c # cs) = (case apply_call m c of Inl e \<Rightarrow> Inl e | Inr m' \<Rightarrow> run_calls m' cs)"

definition manager_after :: "call list \<Rightarrow> ApprovalManager" where
  "manager_after cs =
     (case run_calls ApprovalManager_init cs of Inr m \<Rightarrow> m | Inl _ \<Rightarrow> ApprovalManager_init)"

definition terminal :: "ApprovalStatus \<Rightarrow> bool" where
  "terminal s = (s \<in> {APPROVED, REJECTED, EXPIRED, CANCELLED})"

definition transition_ok :: "ApprovalStatus \<Rightarrow> ApprovalStatus \<Rightarrow> bool" where
  "transition_ok s s' = (s' = s \<or> (s = PENDING \<and> terminal s'))"

section \<open>Requests and classifications (src/models/core\_models.py)\<close>

text \<open>
  Values of the \<open>Dict[str, Any]\<close> fields, with Python's truth test. Strings are lists of
  8-bit characters; \<open>lower\<close> is \<open>str.lower()\<close> on the ASCII letters.
\<close>

datatype pyval = PyNone | PyBool bool | PyInt int | PyStr string

fun truthy :: "pyval \<Rightarrow> bool" where
  "truthy PyNone = False"
| "truthy (PyBool b) = b"
| "truthy (PyInt i) = (i \<noteq> 0)"
| "truthy (PyStr s) = (s \<noteq> [])"

definition lower_char :: "char \<Rightarrow> char" where
  "lower_char c =
     (case map_of (zip ''ABCDEFGHIJKLMNOPQRSTUVWXYZ'' ''abcdefghijklmnopqrstuvwxyz'') c of
        Some d \<Rightarrow> d | None \<Rightarrow> c)"

definition lower :: "string \<Rightarrow> string" where
  "lower s = map lower_char s"

text \<open>\<open>sub in s\<close> on strings: \<open>sub\<close> occurs in \<open>s\<close> as a contiguous block.\<close>

fun str_contains :: "string \<Rightarrow> string \<Rightarrow> bool" where
  "str_contains sub [] = (sub = [])"
| "str_contains sub (c # cs) = (take (length sub) (c # cs) = sub \<or> str_contains sub cs)"

text \<open>
  \<open>TaskId\<close> as src/models/core\_models.py declares it. \<open>TaskId.NAME\<close> in an expression is
  an attribute lookup on the enum: it gives the member of that name and raises
  \<open>AttributeError\<close> when the enum has none.
\<close>

datatype TaskId = CANCEL_ORDER | CHANGE_ORDER_STATUS

fun TaskId_value :: "TaskId \<Rightarrow> string" where
  "TaskId_value CANCEL_ORDER = ''CANCEL_ORDER''"
| "TaskId_value CHANGE_ORDER_STATUS = ''CHANGE_ORDER_STATUS''"

definition TaskId_member :: "string \<Rightarrow> py_error + TaskId" where
  "TaskId_member member_name =
     (if member_name = ''CANCEL_ORDER'' then Inr CANCEL_ORDER
      else if member_name = ''CHANGE_ORDER_STATUS'' then Inr CHANGE_ORDER_STATUS
      else Inl AttributeError)"

record OperationalRequest =
  req_id :: string
  user_id :: string
  query :: string
  req_context :: "(string \<times> pyval) list"
  req_environment :: "string option"

record ClassificationResult =
  task_id :: "TaskId option"
  confidence :: real
  extracted_entities :: "(string \<times> pyval) list"
  cls_environment :: "string option"
  service :: "string option"

section \<open>RiskEngine (src/riskAssessment/risk\_engine.py)\<close>

datatype RiskLevel = LOW | MEDIUM | HIGH | CRITICAL

text \<open>
  Floating point. The engine computes with Python floats; what a literal denotes and what
  \<open>*\<close>, \<open>sum\<close>, \<open>/\<close> and \<open><=\<close> return belong to the Python runtime (the result of \<open>sum\<close>
  on floats differs between Python versions). The engine is therefore modelled over any
  type \<open>'f\<close> of floats with these operations as parameters: \<open>fl_lit q\<close> is the float that
  the decimal literal of value \<open>q\<close> denotes, \<open>fl_sum\<close> is \<open>sum\<close> with its start value 0. The
  divisor of the one division is the sum of four literal weights, 5.0 in every Python, so
  the division does not raise.
\<close>

record 'f float_ops =
  fl_lit :: "rat \<Rightarrow> 'f"
  fl_mul :: "'f \<Rightarrow> 'f \<Rightarrow> 'f"
  fl_sum :: "'f list \<Rightarrow> 'f"
  fl_div :: "'f \<Rightarrow> 'f \<Rightarrow> 'f"
  fl_le :: "'f \<Rightarrow> 'f \<Rightarrow> bool"

text \<open>
  The descriptions of the risk factors are display texts that no computation reads; the
  record leaves them out.
\<close>

record 'f RiskFactor =
  name :: string
  score :: 'f
  weight :: 'f

record 'f RiskAssessment =
  ra_risk_level :: RiskLevel
  ra_score :: 'f
  factors :: "'f RiskFactor list"
  requires_approval :: bool
  ra_constraints :: "(string \<times> pyval) list"

text \<open>The attributes that \<open>RiskEngine.__init__\<close> assigns.\<close>

record 'f RiskEngine =
  environment_risk :: "(string \<times> 'f) list"
  task_risk :: "(TaskId \<times> 'f) list"
  business_hours_factor :: 'f
  engine_thresholds :: "RiskLevel \<Rightarrow> 'f"

text \<open>
  \<open>RiskEngine.__init__\<close>. The dict display of \<open>task_risk\<close> evaluates its keys
  \<open>TaskId.CANCEL_CASE\<close>, \<open>TaskId.CHANGE_CASE_STATUS\<close> and \<open>TaskId.RECONCILE_CASE_DATA\<close> in
  turn; each is an attribute lookup on the enum and may raise.
\<close>

definition RiskEngine_init :: "'f float_ops \<Rightarrow> py_error + 'f RiskEngine" where
  "RiskEngine_init ops =
     (let env_table = [(''dev'', fl_lit ops (1 / 10)), (''staging'', fl_lit ops (3 / 10)),
                       (''prod'', fl_lit ops 1)]
      in case TaskId_member ''CANCEL_CASE'' of
           Inl e \<Rightarrow> Inl e
         | Inr k1 \<Rightarrow>
             (case TaskId_member ''CHANGE_CASE_STATUS'' of
                Inl e \<Rightarrow> Inl e
              | Inr k2 \<Rightarrow>
                  (case TaskId_member ''RECONCILE_CASE_DATA'' of
                     Inl e \<Rightarrow> Inl e
                   | Inr k3 \<Rightarrow>
                       Inr \<lparr> environment_risk = env_table,
                             task_risk =
                               AList.update k3 (fl_lit ops (8 / 10))
                                 (AList.update k2 (fl_lit ops (4 / 10))
                                   [(k1, fl_lit ops (7 / 10))]),
                             business_hours_factor = fl_lit ops (8 / 10),
                             engine_thresholds =
                               (\<lambda>level. case level of
                                  LOW \<Rightarrow> fl_lit ops (3 / 10)
                                | MEDIUM \<Rightarrow> fl_lit ops (6 / 10)
                                | HIGH \<Rightarrow> fl_lit ops (8 / 10)
                                | CRITICAL \<Rightarrow> fl_lit ops 1) \<rparr>)))"

text \<open>
  \<open>d.get(k, dflt)\<close> with a key that may be \<open>None\<close> (an optional environment, an optional
  task): \<open>None\<close> is not a key of either table.
\<close>

definition dict_get_opt :: "('k \<times> 'v) list \<Rightarrow> 'k option \<Rightarrow> 'v \<Rightarrow> 'v" where
  "dict_get_opt d k dflt = (case k of None \<Rightarrow> dflt | Some k' \<Rightarrow> dict_get d k' dflt)"

text \<open>\<open>_calculate_time_risk\<close>; \<open>hour\<close> is \<open>datetime.now().hour\<close>.\<close>

definition calculate_time_risk :: "'f float_ops \<Rightarrow> nat \<Rightarrow> 'f" where
  "calculate_time_risk ops hour =
     (if 9 \<le> hour \<and> hour \<le> 17 then fl_lit ops (2 / 10)
      else if (6 \<le> hour \<and> hour \<le> 9) \<or> (17 \<le> hour \<and> hour \<le> 22) then fl_lit ops (5 / 10)
      else fl_lit ops (8 / 10))"

definition calculate_user_risk :: "'f float_ops \<Rightarrow> string \<Rightarrow> 'f" where
  "calculate_user_risk ops uid =
     (if str_contains ''admin'' (lower uid) \<or> str_contains ''ops'' (lower uid)
      then fl_lit ops (2 / 10)
      else if str_contains ''engineer'' (lower uid) then fl_lit ops (4 / 10)
      else fl_lit ops (7 / 10))"

text \<open>
  \<open>_score_to_risk_level\<close> as a method: the comparisons are the runtime's \<open><=\<close> on floats and
  the thresholds are read from the engine, whose table has the four levels as its keys.
\<close>

definition engine_score_to_risk_level :: "'f float_ops \<Rightarrow> 'f RiskEngine \<Rightarrow> 'f \<Rightarrow> RiskLevel" where
  "engine_score_to_risk_level ops self s =
     (if fl_le ops s (engine_thresholds self LOW) then LOW
      else if fl_le ops s (engine_thresholds self MEDIUM) then MEDIUM
      else if fl_le ops s (engine_thresholds self HIGH) then HIGH
      else CRITICAL)"

text \<open>
  The score-to-level mapping on real scores with the thresholds of the source,
  \<open>risk_thresholds\<close>, and the order of the reals.
\<close>

fun risk_thresholds :: "RiskLevel \<Rightarrow> real" where
  "risk_thresholds LOW = 0.3"
| "risk_thresholds MEDIUM = 0.6"
| "risk_thresholds HIGH = 0.8"
| "risk_thresholds CRITICAL = 1.0"

definition score_to_risk_level :: "real \<Rightarrow> RiskLevel" where
  "score_to_risk_level s =
     (if s \<le> risk_thresholds LOW then LOW
      else if s \<le> risk_thresholds MEDIUM then MEDIUM
      else if s \<le> risk_thresholds HIGH then HIGH
      else CRITICAL)"

text \<open>
  \<open>_requires_approval\<close>. The third rule compares the task with \<open>TaskId.CANCEL_CASE\<close>, an
  attribute lookup that is made only when the first two rules have not returned.
\<close>

definition compute_requires_approval ::
  "RiskLevel \<Rightarrow> string option \<Rightarrow> TaskId option \<Rightarrow> py_error + bool" where
  "compute_requires_approval level environment task =
     (if environment = Some ''prod'' \<and> level \<in> set [MEDIUM, HIGH, CRITICAL] then Inr True
      else if level \<in> set [HIGH, CRITICAL] then Inr True
      else (case TaskId_member ''CANCEL_CASE'' of
              Inl e \<Rightarrow> Inl e
            | Inr cancel_case \<Rightarrow>
                if task = Some cancel_case \<and>
                   environment \<in> set [Some ''staging'', Some ''prod'']
                then Inr True
                else Inr False))"

text \<open>
  \<open>_build_constraints\<close>; \<open>constraints.update({...})\<close> stores the keys one by one. The last
  test looks \<open>TaskId.CANCEL_CASE\<close> up on every call.
\<close>

definition build_constraints ::
  "RiskLevel \<Rightarrow> string option \<Rightarrow> TaskId option \<Rightarrow> py_error + (string \<times> pyval) list" where
  "build_constraints level environment task =
     (let constraints =
            [(''api_only'', PyBool True),
             (''max_retries'', PyInt 3),
             (''timeout_minutes'', PyInt 30),
             (''rollback_required'', PyBool (level \<in> set [HIGH, CRITICAL])),
             (''monitoring_required'', PyBool (level \<noteq> LOW)),
             (''notification_required'', PyBool (level \<in> set [HIGH, CRITICAL]))];
          constraints =
            (if environment = Some ''prod''
             then AList.update ''approval_timeout_hours'' (PyInt 24)
                   (AList.update ''backup_required'' (PyBool True)
                     (AList.update ''timeout_minutes'' (PyInt 15)
                       (AList.update ''max_retries'' (PyInt 1) constraints)))
             else constraints)
      in case TaskId_member ''CANCEL_CASE'' of
           Inl e \<Rightarrow> Inl e
         | Inr cancel_case \<Rightarrow>
             if task = Some cancel_case
             then Inr (AList.update ''audit_trail_required'' (PyBool True)
                        (AList.update ''confirmation_required'' (PyBool True) constraints))
             else Inr constraints)"

text \<open>
  \<open>assess_risk\<close> on an engine \<open>self\<close>; \<open>hour\<close> is the local hour read by
  \<open>_calculate_time_risk\<close>. The calls are made in the order of the source: the level, then
  \<open>_requires_approval\<close>, then \<open>_build_constraints\<close>; the first exception ends the call.
\<close>

definition assess_risk ::
  "'f float_ops \<Rightarrow> 'f RiskEngine \<Rightarrow> OperationalRequest \<Rightarrow> ClassificationResult \<Rightarrow> nat
     \<Rightarrow> py_error + 'f RiskAssessment" where
  "assess_risk ops self request classification hour =
     (let env_risk = dict_get_opt (environment_risk self) (req_environment request)
                       (fl_lit ops (5 / 10));
          task_risk_score = dict_get_opt (task_risk self) (task_id classification)
                              (fl_lit ops (5 / 10));
          time_risk = calculate_time_risk ops hour;
          user_risk = calculate_user_risk ops (user_id request);
          risk_factors =
            [\<lparr> name = ''Environment Risk'', score = env_risk, weight = fl_lit ops 2 \<rparr>,
             \<lparr> name = ''Task Complexity'', score = task_risk_score,
               weight = fl_lit ops (15 / 10) \<rparr>,
             \<lparr> name = ''Timing Risk'', score = time_risk, weight = fl_lit ops (5 / 10) \<rparr>,
             \<lparr> name = ''User Experience'', score = user_risk, weight = fl_lit ops 1 \<rparr>];
          total_weighted_score =
            fl_sum ops (map (\<lambda>f. fl_mul ops (score f) (weight f)) risk_factors);
          total_weight = fl_sum ops (map weight risk_factors);
          overall_score = fl_div ops total_weighted_score total_weight;
          level = engine_score_to_risk_level ops self overall_score
      in case compute_requires_approval level (req_environment request)
                (task_id classification) of
           Inl e \<Rightarrow> Inl e
         | Inr approval \<Rightarrow>
             (case build_constraints level (req_environment request)
                     (task_id classification) of
                Inl e \<Rightarrow> Inl e
              | Inr constraints \<Rightarrow>
                  Inr \<lparr> ra_risk_level = level,
                        ra_score = overall_score,
                        factors = risk_factors,
                        requires_approval = approval,
                        ra_constraints = constraints \<rparr>))"

text \<open>
  The engine as its callers use it (src/server\_full.py): \<open>RiskEngine()\<close> once, then
  \<open>assess_risk\<close> on the engine that the constructor returned.
\<close>

definition new_engine_assess_risk ::
  "'f float_ops \<Rightarrow> OperationalRequest \<Rightarrow> ClassificationResult \<Rightarrow> nat
     \<Rightarrow> py_error + 'f RiskAssessment" where
  "new_engine_assess_risk ops request classification hour =
     (case RiskEngine_init ops of
        Inl e \<Rightarrow> Inl e
      | Inr self \<Rightarrow> assess_risk ops self request classification hour)"


section \<open>PolicyValidator (src/riskAssessment/policy\_validator.py)\<close>

record PolicyViolation =
  policy_name :: string
  violation_type :: string
  description :: string
  severity :: string

record PolicyValidationResult =
  allowed :: bool
  violations :: "PolicyViolation list"
  pv_constraints :: "(string \<times> pyval) list"
  warnings :: "string list"

record env_policy =
  approval_required :: bool
  max_risk_level :: string
  backup_required :: bool
  rollback_plan_required :: bool
  notification_required :: bool

definition prod_policy :: env_policy where
  "prod_policy = \<lparr> approval_required = True, max_risk_level = ''MEDIUM'',
                   backup_required = True, rollback_plan_required = True,
                   notification_required = True \<rparr>"

definition environment_policies :: "(string \<times> env_policy) list" where
  "environment_policies =
     [(''prod'', prod_policy),
      (''staging'', \<lparr> approval_required = False, max_risk_level = ''HIGH'',
                  backup_required = False, rollback_plan_required = True,
                  notification_required = False \<rparr>),
      (''dev'', \<lparr> approval_required = False, max_risk_level = ''HIGH'',
                  backup_required = False, rollback_plan_required = False,
                  notification_required = False \<rparr>)]"

text \<open>The fields of \<open>OperationalPlan\<close> (src/planGeneration/plan\_generator.py) that are read.\<close>

record OperationalPlan =
  plan_summary :: string
  plan_risk_level :: string
  rollback :: "string list"

text \<open>\<open>str(x)\<close> of an optional string inside an f-string.\<close>

definition str_of_opt :: "string option \<Rightarrow> string" where
  "str_of_opt x = (case x of None \<Rightarrow> ''None'' | Some s \<Rightarrow> s)"

definition has_production_access :: "string \<Rightarrow> bool" where
  "has_production_access uid =
     list_ex (\<lambda>role. str_contains role (lower uid)) [''ops'', ''admin'', ''engineer'']"

definition validate_task_policies ::
  "ClassificationResult \<Rightarrow> OperationalRequest \<Rightarrow> PolicyViolation list" where
  "validate_task_policies classification request =
     (case task_id classification of
        None \<Rightarrow> []
      | Some t \<Rightarrow>
          if TaskId_value t \<noteq> [] \<and> str_contains ''CANCEL'' (TaskId_value t)
          then (if req_environment request = Some ''prod'' \<and>
                   \<not> (case map_of (req_context request) ''business_justification'' of
                        None \<Rightarrow> False | Some v \<Rightarrow> truthy v)
                then [\<lparr> policy_name = ''business_justification'',
                        violation_type = ''MISSING_CONTEXT'',
                        description =
                          ''Production case cancellations require business justification'',
                        severity = ''WARNING'' \<rparr>]
                else [])
          else [])"

text \<open>
  \<open>_validate_time_policies\<close>; \<open>hour\<close> and \<open>weekday\<close> are \<open>datetime.now().hour\<close> and
  \<open>datetime.now().weekday()\<close>.
\<close>

definition validate_time_policies :: "OperationalRequest \<Rightarrow> nat \<Rightarrow> nat \<Rightarrow> string list" where
  "validate_time_policies request hour weekday =
     (if req_environment request = Some ''prod'' \<and> \<not> (9 \<le> hour \<and> hour \<le> 17)
      then [''Production operation requested outside business hours''] else []) @
     (if weekday \<ge> 5 then [''Operation requested during weekend''] else [])"

definition build_policy_constraints ::
  "env_policy \<Rightarrow> ClassificationResult \<Rightarrow> (string \<times> pyval) list" where
  "build_policy_constraints pol classification =
     [(''api_only'', PyBool True),
      (''approval_required'', PyBool (approval_required pol)),
      (''backup_required'', PyBool (backup_required pol)),
      (''rollback_plan_required'', PyBool (rollback_plan_required pol)),
      (''notification_required'', PyBool (notification_required pol)),
      (''max_risk_level'', PyStr (max_risk_level pol))]"

text \<open>The test that decides \<open>allowed\<close>, the same expression in both validators.\<close>

definition blocking :: "PolicyViolation \<Rightarrow> bool" where
  "blocking v = (severity v \<in> set [''ERROR'', ''CRITICAL''])"

text \<open>
  \<open>validate_request\<close>. The default \<open>self.environment_policies["prod"]\<close> is the prod
  entry of the constant table. The optional risk assessment is not read.
\<close>

definition validate_request ::
  "OperationalRequest \<Rightarrow> ClassificationResult \<Rightarrow> nat \<Rightarrow> nat \<Rightarrow> PolicyValidationResult" where
  "validate_request request classification hour weekday =
     (let pol = dict_get_opt environment_policies (req_environment request) prod_policy;
          vs = (if req_environment request = Some ''prod'' \<and>
                   \<not> has_production_access (user_id request)
                then [\<lparr> policy_name = ''production_access'',
                        violation_type = ''AUTHORIZATION'',
                        description = ''User '' @ user_id request @
                                      '' does not have production access'',
                        severity = ''ERROR'' \<rparr>]
                else []);
          vs = vs @ validate_task_policies classification request;
          ws = validate_time_policies request hour weekday;
          cons = build_policy_constraints pol classification
      in \<lparr> allowed = (length (filter blocking vs) = 0),
           violations = vs,
           pv_constraints = cons,
           warnings = ws \<rparr>)"

text \<open>\<open>_validate_api_usage\<close> is a stub that returns no violation.\<close>

definition validate_api_usage :: "OperationalPlan \<Rightarrow> PolicyViolation list" where
  "validate_api_usage plan = []"

definition risk_exceeds_limit :: "string \<Rightarrow> string \<Rightarrow> bool" where
  "risk_exceeds_limit plan_risk max_risk =
     (let risk_levels = [(''LOW'', 1::int), (''MEDIUM'', 2), (''HIGH'', 3), (''CRITICAL'', 4)]
      in dict_get risk_levels plan_risk 4 > dict_get risk_levels max_risk 3)"

definition validate_plan :: "OperationalPlan \<Rightarrow> OperationalRequest \<Rightarrow> PolicyValidationResult" where
  "validate_plan plan request =
     (let vs = validate_api_usage plan;
          vs = vs @ (if req_environment request = Some ''prod'' \<and> rollback plan = []
                     then [\<lparr> policy_name = ''rollback_required'',
                             violation_type = ''MISSING_PROCEDURE'',
                             description =
                               ''Production operations must include rollback procedures'',
                             severity = ''ERROR'' \<rparr>]
                     else []);
          max_risk = (case req_environment request of
                        None \<Rightarrow> ''HIGH''
                      | Some e \<Rightarrow> (case map_of environment_policies e of
                                     None \<Rightarrow> ''HIGH''
                                   | Some pol \<Rightarrow> max_risk_level pol));
          vs = vs @ (if risk_exceeds_limit (plan_risk_level plan) max_risk
                     then [\<lparr> policy_name = ''max_risk_level'',
                             violation_type = ''RISK_EXCEEDED'',
                             description =
                               ''Plan risk level '' @ plan_risk_level plan @
                               '' exceeds maximum '' @ max_risk @ '' for '' @
                               str_of_opt (req_environment request),
                             severity = ''ERROR'' \<rparr>]
                     else [])
      in \<lparr> allowed = (length (filter blocking vs) = 0),
           violations = vs,
           pv_constraints = [],
           warnings = [] \<rparr>)"

section \<open>Properties of the ApprovalManager\<close>

lemma terminal_iff: "terminal s = (s \<noteq> PENDING)"
  by (cases s) (simp_all add: terminal_def)

lemma nth_update_cases: "b < length xs \<Longrightarrow> xs[a := v] ! b = (if a = b then v else xs ! b)"
  by (cases "a = b") auto

lemma get_eligible_keeps_store:
  "get_eligible_approvers m level environment = Inr (xs, m1) \<Longrightarrow>
     objects m1 = objects m \<and> approval_requests m1 = approval_requests m"
  by (auto simp: get_eligible_approvers_def Let_def split: option.splits if_splits)

lemma create_objects:
  "create_approval_request m rid summary level req environment t1 t2 = Inr (res, m') \<Longrightarrow>
     b < length (objects m) \<Longrightarrow> objects m' ! b = objects m ! b"
  by (auto simp: create_approval_request_def Let_def nth_append
           split: option.splits if_splits sum.splits dest: get_eligible_keeps_store)

lemma create_length:
  "create_approval_request m rid summary level req environment t1 t2 = Inr (res, m') \<Longrightarrow>
     length (objects m) \<le> length (objects m')"
  by (auto simp: create_approval_request_def Let_def
           split: option.splits if_splits sum.splits dest: get_eligible_keeps_store)

lemma check_objects:
  "b < length (objects m) \<Longrightarrow>
   objects (snd (check_approval_status m rid now)) ! b = objects m ! b \<or>
   (status (objects m ! b) = PENDING \<and>
    objects (snd (check_approval_status m rid now)) ! b = (objects m ! b)\<lparr> status := EXPIRED \<rparr>)"
  by (auto simp: check_approval_status_def Let_def nth_update_cases split: option.splits)

lemma approve_objects:
  "b < length (objects m) \<Longrightarrow>
   objects (snd (approve_request m rid ap c t1 t2)) ! b = objects m ! b \<or>
   (status (objects m ! b) = PENDING \<and>
    status (objects (snd (approve_request m rid ap c t1 t2)) ! b) \<in> {EXPIRED, APPROVED})"
  by (auto simp: approve_request_def Let_def nth_update_cases split: option.splits)

lemma reject_objects:
  "b < length (objects m) \<Longrightarrow>
   objects (snd (reject_request m rid ap reason)) ! b = objects m ! b \<or>
   (status (objects m ! b) = PENDING \<and>
    status (objects (snd (reject_request m rid ap reason)) ! b) = REJECTED)"
  by (auto simp: reject_request_def Let_def nth_update_cases split: option.splits)

lemma length_check [simp]: "length (objects (snd (check_approval_status m rid now))) = length (objects m)"
  by (auto simp: check_approval_status_def Let_def split: option.splits)

lemma length_approve [simp]: "length (objects (snd (approve_request m rid ap c t1 t2))) = length (objects m)"
  by (auto simp: approve_request_def Let_def split: option.splits)

lemma length_reject [simp]: "length (objects (snd (reject_request m rid ap reason))) = length (objects m)"
  by (auto simp: reject_request_def Let_def split: option.splits)

lemma apply_call_length: "apply_call m c = Inr m' \<Longrightarrow> length (objects m) \<le> length (objects m')"
  by (cases c) (auto split: sum.splits dest: create_length)

lemma apply_call_object:
  assumes "apply_call m c = Inr m'" and "b < length (objects m)"
  shows "objects m' ! b = objects m ! b \<or>
         (status (objects m ! b) = PENDING \<and> terminal (status (objects m' ! b)))"
proof (cases c)
  case (Create rid summary level req environment t1 t2)
  with assms show ?thesis by (auto split: sum.splits dest: create_objects)
next
  case (Check rid now)
  with assms check_objects [of b m rid now] show ?thesis by (auto simp: terminal_def)
next
  case (Approve rid ap comments t1 t2)
  with assms approve_objects [of b m rid ap comments t1 t2] show ?thesis by (auto simp: terminal_def)
next
  case (Reject rid ap reason)
  with assms reject_objects [of b m rid ap reason] show ?thesis by (auto simp: terminal_def)
qed

lemma run_calls_object:
  "run_calls m cs = Inr m' \<Longrightarrow> b < length (objects m) \<Longrightarrow>
     objects m' ! b = objects m ! b \<or>
     (status (objects m ! b) = PENDING \<and> terminal (status (objects m' ! b)))"
proof (induction cs arbitrary: m)
  case Nil
  then show ?case by simp
next
  case (Cons c cs)
  from Cons.prems obtain m1 where c: "apply_call m c = Inr m1" and rest: "run_calls m1 cs = Inr m'"
    by (auto split: sum.splits)
  from apply_call_length [OF c] Cons.prems have b1: "b < length (objects m1)" by simp
  from apply_call_object [OF c Cons.prems(2)] Cons.IH [OF rest b1] show ?case
    by (auto simp: terminal_iff)
qed

text \<open>
  Claim C3. Terminal states are absorbing. For a request id bound to a record whose status
  is APPROVED, REJECTED, EXPIRED or CANCELLED, \<open>approve_request\<close> and \<open>reject_request\<close>
  return false and \<open>check_approval_status\<close> returns the record, each leaving the whole
  manager (hence every field of the record) as it was. Over any sequence of calls of the
  manager, a record that is terminal keeps every field, and the status of any record
  either stays or goes from PENDING to a terminal state.
\<close>

theorem terminal_states_absorbing:
  "(map_of (approval_requests m) rid = Some a \<longrightarrow> terminal (status (objects m ! a)) \<longrightarrow>
      approve_request m rid approver comments t1 t2 = (False, m) \<and>
      reject_request m rid approver reason = (False, m) \<and>
      check_approval_status m rid now = (Some a, m)) \<and>
   (run_calls m cs = Inr m' \<longrightarrow> b < length (objects m) \<longrightarrow>
      (terminal (status (objects m ! b)) \<longrightarrow> objects m' ! b = objects m ! b) \<and>
      transition_ok (status (objects m ! b)) (status (objects m' ! b)))"
proof (intro conjI impI)
  assume "map_of (approval_requests m) rid = Some a" and "terminal (status (objects m ! a))"
  then show "approve_request m rid approver comments t1 t2 = (False, m)"
    and "reject_request m rid approver reason = (False, m)"
    and "check_approval_status m rid now = (Some a, m)"
    by (simp_all add: approve_request_def reject_request_def check_approval_status_def
          terminal_iff Let_def)
next
  assume "run_calls m cs = Inr m'" and "b < length (objects m)"
  from run_calls_object [OF this]
  show "transition_ok (status (objects m ! b)) (status (objects m' ! b))"
    by (auto simp: transition_ok_def)
  assume "terminal (status (objects m ! b))"
  with run_calls_object [OF \<open>run_calls m cs = Inr m'\<close> \<open>b < length (objects m)\<close>]
  show "objects m' ! b = objects m ! b"
    by (auto simp: terminal_iff)
qed


lemmas manager_defs =
  manager_after_def create_approval_request_def get_eligible_approvers_def dict_get_def
  list_of_set_def ApprovalRequest_init_def ApprovalManager_init_def timedelta_hours_def
  approve_request_def reject_request_def check_approval_status_def

lemma approved_manager:
  "manager_after [Create ''req-1'' ''cancel case'' ''HIGH'' ''alice'' ''dev'' 0 0,
                  Approve ''req-1'' ''ops_manager'' ''ok'' 10 11] =
     ApprovalManager_init
       \<lparr> approval_requests := [(''req-1'', 0)],
         objects := [\<lparr> request_id = ''req-1'', operation_summary = ''cancel case'',
                       risk_level = ''HIGH'', requester = ''alice'',
                       approvers = [''ops_manager'', ''engineering_manager''],
                       status = APPROVED, created_at = 0, expires_at = 43200000000,
                       approved_by = Some ''ops_manager'', approved_at = Some 11,
                       rejection_reason = None \<rparr>] \<rparr>"
  by (simp add: manager_defs)

theorem terminal_states_absorbing_witness:
  "approve_request
     (manager_after [Create ''req-1'' ''cancel case'' ''HIGH'' ''alice'' ''dev'' 0 0,
                     Approve ''req-1'' ''ops_manager'' ''ok'' 10 11])
     ''req-1'' ''engineering_manager'' ''again'' 20 21 =
   (False, manager_after [Create ''req-1'' ''cancel case'' ''HIGH'' ''alice'' ''dev'' 0 0,
                          Approve ''req-1'' ''ops_manager'' ''ok'' 10 11]) \<and>
   reject_request
     (manager_after [Create ''req-1'' ''cancel case'' ''HIGH'' ''alice'' ''dev'' 0 0,
                     Approve ''req-1'' ''ops_manager'' ''ok'' 10 11])
     ''req-1'' ''ops_manager'' ''changed my mind'' =
   (False, manager_after [Create ''req-1'' ''cancel case'' ''HIGH'' ''alice'' ''dev'' 0 0,
                          Approve ''req-1'' ''ops_manager'' ''ok'' 10 11]) \<and>
   transition_ok PENDING
     (status (objects (manager_after
        [Create ''req-1'' ''cancel case'' ''HIGH'' ''alice'' ''dev'' 0 0,
         Approve ''req-1'' ''ops_manager'' ''ok'' 10 11,
         Reject ''req-1'' ''ops_manager'' ''changed my mind'',
         Check ''req-1'' 50000000000]) ! 0))"
  using terminal_states_absorbing
          [where m = "manager_after [Create ''req-1'' ''cancel case'' ''HIGH'' ''alice'' ''dev'' 0 0,
                                     Approve ''req-1'' ''ops_manager'' ''ok'' 10 11]"
             and rid = "''req-1''" and a = 0 and approver = "''engineering_manager''"
             and comments = "''again''" and ?t1.0 = 20 and ?t2.0 = 21
             and reason = "''changed my mind''" and now = 0 and cs = "[]"
             and m' = "manager_after [Create ''req-1'' ''cancel case'' ''HIGH'' ''alice'' ''dev'' 0 0,
                                      Approve ''req-1'' ''ops_manager'' ''ok'' 10 11]"
             and b = 0]
        terminal_states_absorbing
          [where m = "manager_after [Create ''req-1'' ''cancel case'' ''HIGH'' ''alice'' ''dev'' 0 0]"
             and rid = "''req-1''" and a = 0 and approver = "''ops_manager''"
             and comments = "''ok''" and ?t1.0 = 10 and ?t2.0 = 11
             and reason = "''changed my mind''" and now = 0
             and cs = "[Approve ''req-1'' ''ops_manager'' ''ok'' 10 11,
                        Reject ''req-1'' ''ops_manager'' ''changed my mind'',
                        Check ''req-1'' 50000000000]"
             and m' = "manager_after
                         [Create ''req-1'' ''cancel case'' ''HIGH'' ''alice'' ''dev'' 0 0,
                          Approve ''req-1'' ''ops_manager'' ''ok'' 10 11,
                          Reject ''req-1'' ''ops_manager'' ''changed my mind'',
                          Check ''req-1'' 50000000000]"
             and b = 0]
  by (simp add: manager_defs terminal_def)

subsection \<open>Invariants of the manager\<close>

lemma refs_ok_lookup:
  "refs_ok m \<Longrightarrow> map_of (approval_requests m) rid = Some a \<Longrightarrow> a < length (objects m)"
  by (auto simp: refs_ok_def list_all_iff dest: map_of_SomeD)

lemma set_update_subset: "set (AList.update k v al) \<subseteq> insert (k, v) (set al)"
  by (induction al) auto

lemma map_update_same:
  "map_of al k = Some p \<Longrightarrow> g (k, p') = g (k, p) \<Longrightarrow> map g (AList.update k p' al) = map g al"
  by (induction al) (auto split: if_splits)

lemma get_eligible_key_entry:
  "map_of pols ''HIGH'' = Some high \<Longrightarrow>
   map_of pols (case map_of pols level of Some _ \<Rightarrow> level | None \<Rightarrow> ''HIGH'') =
     Some (dict_get pols level high)"
  by (auto simp: dict_get_def split: option.splits)

lemma policies_ok_get_eligible:
  assumes "get_eligible_approvers m level environment = Inr (xs, m1)" and "policies_ok m"
  shows "policies_ok m1"
proof -
  from assms(1) obtain high where high: "map_of (approval_policies m) ''HIGH'' = Some high"
    by (auto simp: get_eligible_approvers_def split: option.splits)
  let ?key = "case map_of (approval_policies m) level of Some _ \<Rightarrow> level | None \<Rightarrow> ''HIGH''"
  let ?pol = "dict_get (approval_policies m) level high"
  have same: "map (\<lambda>(k, p). (k, required p, timeout_hours p, eligible_approvers p \<noteq> None))
                (AList.update ?key (?pol\<lparr> eligible_approvers := Some ys \<rparr>) (approval_policies m)) =
              map (\<lambda>(k, p). (k, required p, timeout_hours p, eligible_approvers p \<noteq> None))
                (approval_policies m)"
    if "eligible_approvers ?pol = Some zs" for ys zs
    using get_eligible_key_entry [OF high, of level] that
    by (intro map_update_same [where p = ?pol]) auto
  from assms high same show ?thesis
    by (auto simp: get_eligible_approvers_def policies_ok_def Let_def
             split: option.splits if_splits)
qed

lemma policies_ok_create:
  "create_approval_request m rid summary level req environment t1 t2 = Inr (res, m') \<Longrightarrow>
   policies_ok m \<Longrightarrow> policies_ok m'"
  by (auto simp: create_approval_request_def Let_def policies_ok_def [of "_\<lparr>objects := _, approval_requests := _\<rparr>"]
           split: option.splits if_splits sum.splits dest!: policies_ok_get_eligible)
     (auto simp: policies_ok_def)

lemma refs_ok_create:
  assumes "create_approval_request m rid summary level req environment t1 t2 = Inr (res, m')"
    and "refs_ok m"
  shows "refs_ok m'"
proof (cases res)
  case None
  with assms show ?thesis
    by (auto simp: create_approval_request_def Let_def split: option.splits if_splits sum.splits)
next
  case (Some a)
  with assms obtain xs m1 r where
    m1: "get_eligible_approvers m level environment = Inr (xs, m1)" and
    m': "m' = m1\<lparr> objects := objects m1 @ [r],
                   approval_requests := AList.update rid (length (objects m1)) (approval_requests m1) \<rparr>"
    by (auto simp: create_approval_request_def Let_def split: option.splits if_splits sum.splits)
  from get_eligible_keeps_store [OF m1] assms(2) set_update_subset [of rid "length (objects m)" "approval_requests m"]
  show ?thesis unfolding m' refs_ok_def list_all_iff by fastforce
qed

lemma refs_ok_apply_call: "apply_call m c = Inr m' \<Longrightarrow> refs_ok m \<Longrightarrow> refs_ok m'"
proof (cases c)
  case (Create rid summary level req environment t1 t2)
  assume "apply_call m c = Inr m'" and "refs_ok m"
  with Create show ?thesis by (auto split: sum.splits dest: refs_ok_create)
next
  case (Check rid now)
  assume "apply_call m c = Inr m'" and "refs_ok m"
  with Check show ?thesis
    by (auto simp: check_approval_status_def Let_def refs_ok_def split: option.splits)
next
  case (Approve rid ap comments t1 t2)
  assume "apply_call m c = Inr m'" and "refs_ok m"
  with Approve show ?thesis
    by (auto simp: approve_request_def Let_def refs_ok_def split: option.splits)
next
  case (Reject rid ap reason)
  assume "apply_call m c = Inr m'" and "refs_ok m"
  with Reject show ?thesis
    by (auto simp: reject_request_def Let_def refs_ok_def split: option.splits)
qed

lemma policies_ok_apply_call: "apply_call m c = Inr m' \<Longrightarrow> policies_ok m \<Longrightarrow> policies_ok m'"
proof (cases c)
  case (Create rid summary level req environment t1 t2)
  assume "apply_call m c = Inr m'" and "policies_ok m"
  with Create show ?thesis by (auto split: sum.splits dest: policies_ok_create)
next
  case (Check rid now)
  assume "apply_call m c = Inr m'" and "policies_ok m"
  with Check show ?thesis
    by (auto simp: check_approval_status_def Let_def policies_ok_def split: option.splits)
next
  case (Approve rid ap comments t1 t2)
  assume "apply_call m c = Inr m'" and "policies_ok m"
  with Approve show ?thesis
    by (auto simp: approve_request_def Let_def policies_ok_def split: option.splits)
next
  case (Reject rid ap reason)
  assume "apply_call m c = Inr m'" and "policies_ok m"
  with Reject show ?thesis
    by (auto simp: reject_request_def Let_def policies_ok_def split: option.splits)
qed

lemma refs_ok_run_calls: "run_calls m cs = Inr m' \<Longrightarrow> refs_ok m \<Longrightarrow> refs_ok m'"
  by (induction cs arbitrary: m) (auto split: sum.splits dest: refs_ok_apply_call)

lemma policies_ok_run_calls: "run_calls m cs = Inr m' \<Longrightarrow> policies_ok m \<Longrightarrow> policies_ok m'"
  by (induction cs arbitrary: m) (auto split: sum.splits dest: policies_ok_apply_call)

lemma refs_ok_init: "refs_ok ApprovalManager_init"
  by (simp add: refs_ok_def ApprovalManager_init_def)

lemma policies_ok_init: "policies_ok ApprovalManager_init"
  by (simp add: policies_ok_def ApprovalManager_init_def)

text \<open>With a table of the constructor's shape no call raises: every call sequence runs through.\<close>

lemma policies_ok_high:
  "policies_ok m \<Longrightarrow> \<exists>p hs. map_of (approval_policies m) ''HIGH'' = Some p \<and> required p \<and>
     timeout_hours p = 12 \<and> eligible_approvers p = Some hs"
  unfolding policies_ok_def by (auto simp: map_eq_Cons_conv)

lemma policies_ok_keys:
  "policies_ok m \<Longrightarrow> level \<notin> {''LOW'', ''MEDIUM'', ''HIGH'', ''CRITICAL''} \<Longrightarrow>
     map_of (approval_policies m) level = None"
  unfolding policies_ok_def by (auto simp: map_eq_Cons_conv)

subsection \<open>Approving, checking and creating\<close>

lemma pending_manager:
  "manager_after [Create ''req-1'' ''cancel case'' ''HIGH'' ''alice'' ''dev'' 0 0] =
     ApprovalManager_init
       \<lparr> approval_requests := [(''req-1'', 0)],
         objects := [\<lparr> request_id = ''req-1'', operation_summary = ''cancel case'',
                       risk_level = ''HIGH'', requester = ''alice'',
                       approvers = [''ops_manager'', ''engineering_manager''],
                       status = PENDING, created_at = 0, expires_at = 43200000000,
                       approved_by = None, approved_at = None,
                       rejection_reason = None \<rparr>] \<rparr>"
  by (simp add: manager_defs)

text \<open>
  Claim C4. \<open>approve_request\<close> returns false and changes nothing when the id is unknown,
  when the record is not PENDING, or when the approver is not in the record's approver
  list (a PENDING record then stays PENDING). For a PENDING record and an approver of its
  list, a clock reading past \<open>expires_at\<close> makes it return false and set the status to
  EXPIRED, nothing else; otherwise it returns true and sets the status to APPROVED,
  \<open>approved_by\<close> to the approver and \<open>approved_at\<close> to the clock reading.
\<close>

theorem approve_request_cases:
  assumes "refs_ok m"
  shows
  "(map_of (approval_requests m) rid = None \<longrightarrow>
      approve_request m rid approver comments t1 t2 = (False, m)) \<and>
   (map_of (approval_requests m) rid = Some a \<longrightarrow>
      (status (objects m ! a) \<noteq> PENDING \<or> approver \<notin> set (approvers (objects m ! a)) \<longrightarrow>
         approve_request m rid approver comments t1 t2 = (False, m)) \<and>
      (status (objects m ! a) = PENDING \<and> approver \<in> set (approvers (objects m ! a)) \<and>
       t1 > expires_at (objects m ! a) \<longrightarrow>
         approve_request m rid approver comments t1 t2 =
           (False, m\<lparr> objects := (objects m)[a := (objects m ! a)\<lparr> status := EXPIRED \<rparr>] \<rparr>) \<and>
         status (objects (snd (approve_request m rid approver comments t1 t2)) ! a) = EXPIRED) \<and>
      (status (objects m ! a) = PENDING \<and> approver \<in> set (approvers (objects m ! a)) \<and>
       \<not> t1 > expires_at (objects m ! a) \<longrightarrow>
         approve_request m rid approver comments t1 t2 =
           (True, m\<lparr> objects := (objects m)[a := (objects m ! a)\<lparr> status := APPROVED,
                          approved_by := Some approver, approved_at := Some t2 \<rparr>] \<rparr>) \<and>
         status (objects (snd (approve_request m rid approver comments t1 t2)) ! a) = APPROVED \<and>
         approved_by (objects (snd (approve_request m rid approver comments t1 t2)) ! a) =
           Some approver \<and>
         approved_at (objects (snd (approve_request m rid approver comments t1 t2)) ! a) =
           Some t2))"
proof (cases "map_of (approval_requests m) rid")
  case None
  then show ?thesis by (simp add: approve_request_def)
next
  case (Some a')
  with assms have "a' < length (objects m)" by (rule refs_ok_lookup)
  with Some show ?thesis by (auto simp: approve_request_def Let_def)
qed

theorem approve_request_cases_witness:
  "refs_ok (manager_after [Create ''req-1'' ''cancel case'' ''HIGH'' ''alice'' ''dev'' 0 0]) \<and>
   fst (approve_request (manager_after [Create ''req-1'' ''cancel case'' ''HIGH'' ''alice'' ''dev'' 0 0])
          ''req-1'' ''ops_manager'' ''ok'' 10 11) \<and>
   status (objects (snd (approve_request
             (manager_after [Create ''req-1'' ''cancel case'' ''HIGH'' ''alice'' ''dev'' 0 0])
             ''req-1'' ''ops_manager'' ''ok'' 10 11)) ! 0) = APPROVED \<and>
   approved_by (objects (snd (approve_request
             (manager_after [Create ''req-1'' ''cancel case'' ''HIGH'' ''alice'' ''dev'' 0 0])
             ''req-1'' ''ops_manager'' ''ok'' 10 11)) ! 0) = Some ''ops_manager'' \<and>
   approve_request (manager_after [Create ''req-1'' ''cancel case'' ''HIGH'' ''alice'' ''dev'' 0 0])
     ''req-1'' ''random_user'' ''ok'' 10 11 =
     (False, manager_after [Create ''req-1'' ''cancel case'' ''HIGH'' ''alice'' ''dev'' 0 0]) \<and>
   approve_request (manager_after [Create ''req-1'' ''cancel case'' ''HIGH'' ''alice'' ''dev'' 0 0])
     ''req-7'' ''ops_manager'' ''ok'' 10 11 =
     (False, manager_after [Create ''req-1'' ''cancel case'' ''HIGH'' ''alice'' ''dev'' 0 0]) \<and>
   \<not> fst (approve_request (manager_after [Create ''req-1'' ''cancel case'' ''HIGH'' ''alice'' ''dev'' 0 0])
          ''req-1'' ''ops_manager'' ''ok'' 50000000000 50000000001) \<and>
   status (objects (snd (approve_request
             (manager_after [Create ''req-1'' ''cancel case'' ''HIGH'' ''alice'' ''dev'' 0 0])
             ''req-1'' ''ops_manager'' ''ok'' 50000000000 50000000001)) ! 0) = EXPIRED"
  using approve_request_cases
          [of "manager_after [Create ''req-1'' ''cancel case'' ''HIGH'' ''alice'' ''dev'' 0 0]"
              "''req-1''" "''ops_manager''" "''ok''" 10 11 0]
        approve_request_cases
          [of "manager_after [Create ''req-1'' ''cancel case'' ''HIGH'' ''alice'' ''dev'' 0 0]"
              "''req-1''" "''random_user''" "''ok''" 10 11 0]
        approve_request_cases
          [of "manager_after [Create ''req-1'' ''cancel case'' ''HIGH'' ''alice'' ''dev'' 0 0]"
              "''req-7''" "''ops_manager''" "''ok''" 10 11 0]
        approve_request_cases
          [of "manager_after [Create ''req-1'' ''cancel case'' ''HIGH'' ''alice'' ''dev'' 0 0]"
              "''req-1''" "''ops_manager''" "''ok''" 50000000000 50000000001 0]
  by (simp add: pending_manager refs_ok_def ApprovalManager_init_def)

text \<open>
  Claim C5. \<open>check_approval_status\<close> returns \<open>None\<close> exactly when the id is bound to no
  record. For a bound id it returns the record and changes the manager in one case only:
  a PENDING record read strictly after \<open>expires_at\<close> has its status, and nothing else,
  set to EXPIRED. A record just returned by \<open>create_approval_request\<close> and read not later
  than its \<open>expires_at\<close> comes back untouched, PENDING, with the approver list of its
  creation.
\<close>

theorem check_approval_status_frame:
  "(fst (check_approval_status m rid now) = None \<longleftrightarrow> map_of (approval_requests m) rid = None) \<and>
   (map_of (approval_requests m) rid = Some a \<longrightarrow>
      check_approval_status m rid now =
        (Some a,
         if status (objects m ! a) = PENDING \<and> now > expires_at (objects m ! a)
         then m\<lparr> objects := (objects m)[a := (objects m ! a)\<lparr> status := EXPIRED \<rparr>] \<rparr>
         else m)) \<and>
   (create_approval_request m rid summary level req environment t1 t2 = Inr (Some a', m1) \<longrightarrow>
      \<not> now > expires_at (objects m1 ! a') \<longrightarrow>
        check_approval_status m1 rid now = (Some a', m1) \<and>
        status (objects m1 ! a') = PENDING \<and>
        Some (approvers (objects m1 ! a')) =
          created_approvers (create_approval_request m rid summary level req environment t1 t2))"
proof (intro conjI impI)
  show "fst (check_approval_status m rid now) = None \<longleftrightarrow> map_of (approval_requests m) rid = None"
    by (auto simp: check_approval_status_def Let_def split: option.splits)
next
  assume "map_of (approval_requests m) rid = Some a"
  then show "check_approval_status m rid now =
        (Some a,
         if status (objects m ! a) = PENDING \<and> now > expires_at (objects m ! a)
         then m\<lparr> objects := (objects m)[a := (objects m ! a)\<lparr> status := EXPIRED \<rparr>] \<rparr>
         else m)"
    by (auto simp: check_approval_status_def Let_def)
next
  assume c: "create_approval_request m rid summary level req environment t1 t2 = Inr (Some a', m1)"
    and live: "\<not> now > expires_at (objects m1 ! a')"
  from c obtain xs m0 exp where
    m1: "m1 = m0\<lparr> objects := objects m0 @ [ApprovalRequest_init rid summary level req xs exp t2],
                  approval_requests := AList.update rid (length (objects m0)) (approval_requests m0) \<rparr>"
    and a': "a' = length (objects m0)"
    by (auto simp: create_approval_request_def Let_def split: option.splits if_splits sum.splits)
  have bound: "map_of (approval_requests m1) rid = Some a'"
    by (simp add: m1 a' update_conv')
  have obj: "objects m1 ! a' = ApprovalRequest_init rid summary level req xs exp t2"
    by (simp add: m1 a')
  show "status (objects m1 ! a') = PENDING"
    by (simp add: obj ApprovalRequest_init_def)
  with bound live show "check_approval_status m1 rid now = (Some a', m1)"
    by (simp add: check_approval_status_def Let_def)
  show "Some (approvers (objects m1 ! a')) =
          created_approvers (create_approval_request m rid summary level req environment t1 t2)"
    by (simp add: c created_approvers_def)
qed

theorem check_approval_status_frame_witness:
  "create_approval_request ApprovalManager_init ''req-1'' ''cancel case'' ''HIGH'' ''alice'' ''dev'' 0 0 =
     Inr (Some 0, manager_after [Create ''req-1'' ''cancel case'' ''HIGH'' ''alice'' ''dev'' 0 0]) \<and>
   check_approval_status
     (manager_after [Create ''req-1'' ''cancel case'' ''HIGH'' ''alice'' ''dev'' 0 0]) ''req-1'' 100 =
     (Some 0, manager_after [Create ''req-1'' ''cancel case'' ''HIGH'' ''alice'' ''dev'' 0 0]) \<and>
   set (approvers (objects (manager_after
       [Create ''req-1'' ''cancel case'' ''HIGH'' ''alice'' ''dev'' 0 0]) ! 0)) =
     {''ops_manager'', ''engineering_manager''} \<and>
   fst (check_approval_status
     (manager_after [Create ''req-1'' ''cancel case'' ''HIGH'' ''alice'' ''dev'' 0 0]) ''req-7'' 100) = None \<and>
   status (objects (snd (check_approval_status
     (manager_after [Create ''req-1'' ''cancel case'' ''HIGH'' ''alice'' ''dev'' 0 0])
       ''req-1'' 50000000000)) ! 0) = EXPIRED"
  using check_approval_status_frame
          [of ApprovalManager_init "''req-1''" 100 0 "''cancel case''" "''HIGH''" "''alice''"
              "''dev''" 0 0 0
              "manager_after [Create ''req-1'' ''cancel case'' ''HIGH'' ''alice'' ''dev'' 0 0]"]
        check_approval_status_frame
          [of "manager_after [Create ''req-1'' ''cancel case'' ''HIGH'' ''alice'' ''dev'' 0 0]"
              "''req-7''" 100 0 "''cancel case''" "''HIGH''" "''alice''" "''dev''" 0 0 0
              ApprovalManager_init]
        check_approval_status_frame
          [of "manager_after [Create ''req-1'' ''cancel case'' ''HIGH'' ''alice'' ''dev'' 0 0]"
              "''req-1''" 50000000000 0 "''cancel case''" "''HIGH''" "''alice''" "''dev''" 0 0 0
              ApprovalManager_init]
  by (simp add: pending_manager)
     (simp add: create_approval_request_def get_eligible_approvers_def dict_get_def
        list_of_set_def ApprovalRequest_init_def ApprovalManager_init_def timedelta_hours_def
        created_approvers_def)

text \<open>
  Claim C10, as stated (a level outside LOW, MEDIUM, HIGH, CRITICAL gets the approvers of
  HIGH plus cto and vp\_engineering when the environment is prod), fails on a new manager:
  the request created for prod has the two approvers of the HIGH entry and neither cto nor
  vp\_engineering.
\<close>

theorem unknown_level_prod_counterexample:
  "map_option set (created_approvers
     (create_approval_request ApprovalManager_init ''req-9'' ''restart'' ''URGENT''
        ''alice'' ''prod'' 0 0)) = Some {''ops_manager'', ''engineering_manager''} \<and>
   ''cto'' \<notin> set (the (created_approvers
     (create_approval_request ApprovalManager_init ''req-9'' ''restart'' ''URGENT''
        ''alice'' ''prod'' 0 0))) \<and>
   ''vp_engineering'' \<notin> set (the (created_approvers
     (create_approval_request ApprovalManager_init ''req-9'' ''restart'' ''URGENT''
        ''alice'' ''prod'' 0 0)))"
  by (simp add: created_approvers_def manager_defs Let_def)

text \<open>
  Claim C10, amended. \<open>create_approval_request\<close> with a level outside LOW, MEDIUM, HIGH,
  CRITICAL does not fail and does not return \<open>None\<close>: it binds the id to a new PENDING
  record that expires 12 hours after the clock reading of the call and whose approvers are
  those held by the HIGH entry of the table, ops\_manager and engineering\_manager while
  the table is as constructed. The call adds nothing for prod and leaves the table as it
  is: the escalation is tied to the literal levels HIGH and CRITICAL.
\<close>

theorem unknown_level_uses_high_policy:
  assumes "policies_ok m" and "level \<notin> {''LOW'', ''MEDIUM'', ''HIGH'', ''CRITICAL''}"
  shows "\<exists>a m'. create_approval_request m rid summary level req environment t1 t2 = Inr (Some a, m') \<and>
           map_of (approval_requests m') rid = Some a \<and>
           status (objects m' ! a) = PENDING \<and>
           expires_at (objects m' ! a) = t1 + timedelta_hours 12 \<and>
           set (approvers (objects m' ! a)) = set (high_approvers m) \<and>
           approval_policies m' = approval_policies m \<and>
           (approval_policies m = approval_policies ApprovalManager_init \<longrightarrow>
              set (approvers (objects m' ! a)) = {''ops_manager'', ''engineering_manager''})"
proof -
  from policies_ok_high [OF assms(1)] obtain p hs where
    p: "map_of (approval_policies m) ''HIGH'' = Some p" "required p" "timeout_hours p = 12"
       "eligible_approvers p = Some hs"
    by blast
  from policies_ok_keys [OF assms] have none: "map_of (approval_policies m) level = None" .
  from assms(2) have lv: "level \<noteq> ''HIGH''" "level \<noteq> ''CRITICAL''" by auto
  have ge: "get_eligible_approvers m level environment = Inr (list_of_set hs, m)"
    using p none lv by (simp add: get_eligible_approvers_def dict_get_def Let_def)
  have cr: "create_approval_request m rid summary level req environment t1 t2 =
          Inr (Some (length (objects m)),
               m\<lparr> objects := objects m @
                      [ApprovalRequest_init rid summary level req (list_of_set hs)
                         (t1 + timedelta_hours 12) t2],
                   approval_requests :=
                      AList.update rid (length (objects m)) (approval_requests m) \<rparr>)"
    using p none ge by (simp add: create_approval_request_def dict_get_def Let_def)
  have hi: "high_approvers m = hs"
    using p by (simp add: high_approvers_def)
  have fresh: "approval_policies m = approval_policies ApprovalManager_init \<Longrightarrow>
      set hs = {''ops_manager'', ''engineering_manager''}"
    using p by (auto simp: ApprovalManager_init_def)
  show ?thesis
    unfolding cr using hi fresh
    by (auto simp: update_conv' ApprovalRequest_init_def list_of_set_def)
qed

theorem unknown_level_uses_high_policy_witness:
  "policies_ok ApprovalManager_init \<and>
   ''URGENT'' \<notin> {''LOW'', ''MEDIUM'', ''HIGH'', ''CRITICAL''} \<and>
   (\<exists>a m'. create_approval_request ApprovalManager_init ''req-9'' ''restart'' ''URGENT''
              ''alice'' ''prod'' 0 0 = Inr (Some a, m') \<and>
            map_of (approval_requests m') ''req-9'' = Some a \<and>
            status (objects m' ! a) = PENDING \<and>
            expires_at (objects m' ! a) = 43200000000 \<and>
            set (approvers (objects m' ! a)) = {''ops_manager'', ''engineering_manager''})"
proof -
  have ok: "policies_ok ApprovalManager_init"
    by (simp add: policies_ok_def ApprovalManager_init_def)
  have lv: "''URGENT'' \<notin> {''LOW'', ''MEDIUM'', ''HIGH'', ''CRITICAL''}"
    by simp
  from unknown_level_uses_high_policy
         [OF ok lv, of "''req-9''" "''restart''" "''alice''" "''prod''" 0 0]
  obtain a where "\<exists>m'. create_approval_request ApprovalManager_init ''req-9'' ''restart'' ''URGENT''
       ''alice'' ''prod'' 0 0 = Inr (Some a, m') \<and>
           map_of (approval_requests m') ''req-9'' = Some a \<and>
           status (objects m' ! a) = PENDING \<and>
           expires_at (objects m' ! a) = 0 + timedelta_hours 12 \<and>
           set (approvers (objects m' ! a)) = set (high_approvers ApprovalManager_init) \<and>
           approval_policies m' = approval_policies ApprovalManager_init \<and>
           (approval_policies ApprovalManager_init = approval_policies ApprovalManager_init \<longrightarrow>
              set (approvers (objects m' ! a)) = {''ops_manager'', ''engineering_manager''})" ..
  then obtain m' where h: "create_approval_request ApprovalManager_init ''req-9'' ''restart'' ''URGENT''
       ''alice'' ''prod'' 0 0 = Inr (Some a, m') \<and>
           map_of (approval_requests m') ''req-9'' = Some a \<and>
           status (objects m' ! a) = PENDING \<and>
           expires_at (objects m' ! a) = 0 + timedelta_hours 12 \<and>
           set (approvers (objects m' ! a)) = set (high_approvers ApprovalManager_init) \<and>
           approval_policies m' = approval_policies ApprovalManager_init \<and>
           (approval_policies ApprovalManager_init = approval_policies ApprovalManager_init \<longrightarrow>
              set (approvers (objects m' ! a)) = {''ops_manager'', ''engineering_manager''})" ..
  have "create_approval_request ApprovalManager_init ''req-9'' ''restart'' ''URGENT''
              ''alice'' ''prod'' 0 0 = Inr (Some a, m') \<and>
            map_of (approval_requests m') ''req-9'' = Some a \<and>
            status (objects m' ! a) = PENDING \<and>
            expires_at (objects m' ! a) = 43200000000 \<and>
            set (approvers (objects m' ! a)) = {''ops_manager'', ''engineering_manager''}"
    using h by (simp add: timedelta_hours_def high_approvers_def ApprovalManager_init_def)
  then have "\<exists>a m'. create_approval_request ApprovalManager_init ''req-9'' ''restart'' ''URGENT''
              ''alice'' ''prod'' 0 0 = Inr (Some a, m') \<and>
            map_of (approval_requests m') ''req-9'' = Some a \<and>
            status (objects m' ! a) = PENDING \<and>
            expires_at (objects m' ! a) = 43200000000 \<and>
            set (approvers (objects m' ! a)) = {''ops_manager'', ''engineering_manager''}"
    by (intro exI)
  with ok lv show ?thesis by (intro conjI)
qed

subsection \<open>The code at two inputs where it departs from its description\<close>

text \<open>
  While the policy table is as the constructor built it, a created request has the roles
  of its level, and cto and vp\_engineering are added for prod at HIGH and CRITICAL only;
  a LOW request creates nothing.
\<close>

lemma create_on_constructed_table:
  assumes "approval_policies m = approval_policies ApprovalManager_init"
  shows
    "map_option set (created_approvers
       (create_approval_request m rid summary ''MEDIUM'' req environment t1 t2)) =
       Some {''ops_lead'', ''senior_engineer''}"
    "map_option set (created_approvers
       (create_approval_request m rid summary ''HIGH'' req environment t1 t2)) =
       Some ({''ops_manager'', ''engineering_manager''} \<union>
             (if environment = ''prod'' then {''cto'', ''vp_engineering''} else {}))"
    "map_option set (created_approvers
       (create_approval_request m rid summary ''CRITICAL'' req environment t1 t2)) =
       Some ({''ops_director'', ''cto'', ''vp_engineering''} \<union>
             (if environment = ''prod'' then {''cto'', ''vp_engineering''} else {}))"
    "create_approval_request m rid summary ''LOW'' req environment t1 t2 = Inr (None, m)"
  using assms
  by (auto simp: created_approvers_def create_approval_request_def get_eligible_approvers_def
        dict_get_def list_of_set_def ApprovalRequest_init_def ApprovalManager_init_def Let_def)

text \<open>
  Claim C1 (the approvers of a created request are the roles of its level, with cto and
  vp\_engineering added exactly for prod at HIGH or CRITICAL, whatever was created before).
  On a new manager a HIGH request for dev gets ops\_manager and engineering\_manager. The
  same call made after a HIGH request for prod gets cto and vp\_engineering as well: the
  earlier call appended them to the list that the HIGH entry of the table holds.
\<close>

theorem escalation_leaks_into_later_requests:
  "map_option set (created_approvers
     (create_approval_request ApprovalManager_init
        ''req-2'' ''restart'' ''HIGH'' ''bob'' ''dev'' 5 5)) =
     Some {''ops_manager'', ''engineering_manager''} \<and>
   map_option set (created_approvers
     (create_approval_request
        (manager_after [Create ''req-1'' ''cancel case'' ''HIGH'' ''alice'' ''prod'' 0 0])
        ''req-2'' ''restart'' ''HIGH'' ''bob'' ''dev'' 5 5)) =
     Some {''ops_manager'', ''engineering_manager'', ''cto'', ''vp_engineering''} \<and>
   ''cto'' \<notin> {''ops_manager'', ''engineering_manager''}"
  by (simp add: created_approvers_def manager_defs Let_def)

text \<open>
  Claim C2 (\<open>reject_request\<close> guards as \<open>approve_request\<close> does, so a PENDING record past
  its \<open>expires_at\<close> is not rejected but set to EXPIRED). The record below expires at
  43200000000. \<open>approve_request\<close> at the later clock reading 50000000000 returns false and
  sets EXPIRED; \<open>reject_request\<close>, which reads no clock, returns true and sets REJECTED
  with the reason.
\<close>

theorem reject_request_ignores_expiry:
  "status (objects (manager_after
       [Create ''req-1'' ''cancel case'' ''HIGH'' ''alice'' ''dev'' 0 0]) ! 0) = PENDING \<and>
   expires_at (objects (manager_after
       [Create ''req-1'' ''cancel case'' ''HIGH'' ''alice'' ''dev'' 0 0]) ! 0) = 43200000000 \<and>
   \<not> fst (approve_request
       (manager_after [Create ''req-1'' ''cancel case'' ''HIGH'' ''alice'' ''dev'' 0 0])
       ''req-1'' ''ops_manager'' ''late'' 50000000000 50000000000) \<and>
   status (objects (snd (approve_request
       (manager_after [Create ''req-1'' ''cancel case'' ''HIGH'' ''alice'' ''dev'' 0 0])
       ''req-1'' ''ops_manager'' ''late'' 50000000000 50000000000)) ! 0) = EXPIRED \<and>
   fst (reject_request
       (manager_after [Create ''req-1'' ''cancel case'' ''HIGH'' ''alice'' ''dev'' 0 0])
       ''req-1'' ''ops_manager'' ''late'') \<and>
   status (objects (snd (reject_request
       (manager_after [Create ''req-1'' ''cancel case'' ''HIGH'' ''alice'' ''dev'' 0 0])
       ''req-1'' ''ops_manager'' ''late'')) ! 0) = REJECTED \<and>
   rejection_reason (objects (snd (reject_request
       (manager_after [Create ''req-1'' ''cancel case'' ''HIGH'' ''alice'' ''dev'' 0 0])
       ''req-1'' ''ops_manager'' ''late'')) ! 0) = Some ''late''"
  by (simp add: pending_manager approve_request_def reject_request_def ApprovalManager_init_def)

section \<open>Properties of the RiskEngine\<close>



text \<open>
  The method \<open>_score_to_risk_level\<close> of an engine is this mapping when the floats are the
  reals with their order and the engine holds the thresholds of the source.
\<close>

lemma engine_score_to_risk_level_real:
  "fl_le ops = (\<le>) \<Longrightarrow> engine_thresholds self = risk_thresholds \<Longrightarrow>
     engine_score_to_risk_level ops self s = score_to_risk_level s"
  by (simp add: engine_score_to_risk_level_def score_to_risk_level_def)

subsection \<open>The members of \<open>TaskId\<close> that the engine names\<close>

lemma TaskId_member_CANCEL_CASE: "TaskId_member ''CANCEL_CASE'' = Inl AttributeError"
  by (simp add: TaskId_member_def)

lemma build_constraints_raises: "build_constraints level environment task = Inl AttributeError"
  by (simp add: build_constraints_def TaskId_member_CANCEL_CASE Let_def)

lemma compute_requires_approval_cases:
  "compute_requires_approval level environment task =
     (if (environment = Some ''prod'' \<and> level \<in> {MEDIUM, HIGH, CRITICAL}) \<or>
         level \<in> {HIGH, CRITICAL}
      then Inr True else Inl AttributeError)"
  by (cases level) (simp_all add: compute_requires_approval_def TaskId_member_CANCEL_CASE)

lemma RiskEngine_init_raises: "RiskEngine_init ops = Inl AttributeError"
  by (simp add: RiskEngine_init_def TaskId_member_CANCEL_CASE Let_def)

lemma assess_risk_raises:
  "assess_risk ops self request classification hour = Inl AttributeError"
  by (simp add: assess_risk_def Let_def build_constraints_raises compute_requires_approval_cases)

text \<open>
  Claim C6 (the \<open>requires_approval\<close> flag of the assessment is true exactly when the
  environment is prod and the level is MEDIUM, HIGH or CRITICAL, or the level is HIGH or
  CRITICAL, or the task is the cancellation task and the environment is staging or prod).
  \<open>_requires_approval\<close> answers true under the first two rules; wherever the answer rests
  on the third rule or is false, the lookup of \<open>TaskId.CANCEL_CASE\<close> raises
  \<open>AttributeError\<close>, as for a LOW cancellation in dev. A call of \<open>assess_risk\<close> on a new
  engine ends in that exception and yields no assessment and no flag.
\<close>

theorem requires_approval_raises:
  "compute_requires_approval level environment task =
     (if (environment = Some ''prod'' \<and> level \<in> {MEDIUM, HIGH, CRITICAL}) \<or>
         level \<in> {HIGH, CRITICAL}
      then Inr True else Inl AttributeError) \<and>
   compute_requires_approval LOW (Some ''dev'') (Some CANCEL_ORDER) = Inl AttributeError \<and>
   new_engine_assess_risk ops
     \<lparr> req_id = ''req-1'', user_id = ''bob'', query = ''cancel order 1'',
       req_context = [], req_environment = Some ''dev'' \<rparr>
     \<lparr> task_id = Some CANCEL_ORDER, confidence = 0.9, extracted_entities = [],
       cls_environment = None, service = None \<rparr> 10 = Inl AttributeError"
  by (simp add: compute_requires_approval_cases new_engine_assess_risk_def
        RiskEngine_init_raises)

text \<open>
  Claim C8 (\<open>assess_risk\<close> never fails and its score is the weighted mean of the four
  factor scores). \<open>RiskEngine()\<close> raises \<open>AttributeError\<close> while it builds its task table,
  so no engine exists to be called; and on any engine \<open>assess_risk\<close> raises
  \<open>AttributeError\<close> for every request, classification and hour, in \<open>_requires_approval\<close>
  or, at the latest, in \<open>_build_constraints\<close>. No score is returned.
\<close>

theorem assess_risk_always_raises:
  "RiskEngine_init ops = Inl AttributeError \<and>
   assess_risk ops self request classification hour = Inl AttributeError \<and>
   new_engine_assess_risk ops request classification hour = Inl AttributeError"
  by (simp add: RiskEngine_init_raises assess_risk_raises new_engine_assess_risk_def)

section \<open>Properties of the PolicyValidator\<close>

lemma allowed_validate_request:
  "allowed (validate_request request classification hour weekday) =
     (filter blocking (violations (validate_request request classification hour weekday)) = [])"
  by (simp add: validate_request_def Let_def)

lemma allowed_validate_plan:
  "allowed (validate_plan plan request) =
     (filter blocking (violations (validate_plan plan request)) = [])"
  by (simp add: validate_plan_def Let_def)

lemma violations_validate_request_clock:
  "violations (validate_request request classification hour weekday) =
   violations (validate_request request classification hour' weekday')"
  by (simp add: validate_request_def Let_def)

text \<open>
  Claim C7. In the result of \<open>validate_request\<close> and of \<open>validate_plan\<close>, \<open>allowed\<close> is false
  exactly when some violation of the result has severity ERROR or CRITICAL. A result whose
  violations all have severity WARNING is allowed, and the clock (which only decides the
  entries of the warnings list) has no part in \<open>allowed\<close>.
\<close>

theorem allowed_iff_no_blocking_violation:
  "(\<not> allowed (validate_request request classification hour weekday) \<longleftrightarrow>
      (\<exists>v \<in> set (violations (validate_request request classification hour weekday)).
         severity v = ''ERROR'' \<or> severity v = ''CRITICAL'')) \<and>
   (\<not> allowed (validate_plan plan request) \<longleftrightarrow>
      (\<exists>v \<in> set (violations (validate_plan plan request)).
         severity v = ''ERROR'' \<or> severity v = ''CRITICAL'')) \<and>
   ((\<forall>v \<in> set (violations (validate_request request classification hour weekday)).
        severity v = ''WARNING'') \<longrightarrow>
      allowed (validate_request request classification hour weekday)) \<and>
   ((\<forall>v \<in> set (violations (validate_plan plan request)). severity v = ''WARNING'') \<longrightarrow>
      allowed (validate_plan plan request)) \<and>
   allowed (validate_request request classification hour' weekday') =
     allowed (validate_request request classification hour weekday)"
proof -
  have blocking_iff: "blocking v \<longleftrightarrow> severity v = ''ERROR'' \<or> severity v = ''CRITICAL''" for v
    by (simp add: blocking_def)
  have not_blocking: "severity v = ''WARNING'' \<Longrightarrow> \<not> blocking v" for v
    by (simp add: blocking_def)
  have r: "\<not> allowed (validate_request request classification hour weekday) \<longleftrightarrow>
      (\<exists>v \<in> set (violations (validate_request request classification hour weekday)).
         severity v = ''ERROR'' \<or> severity v = ''CRITICAL'')"
    unfolding allowed_validate_request filter_empty_conv by (simp add: blocking_iff)
  have p: "\<not> allowed (validate_plan plan request) \<longleftrightarrow>
      (\<exists>v \<in> set (violations (validate_plan plan request)).
         severity v = ''ERROR'' \<or> severity v = ''CRITICAL'')"
    unfolding allowed_validate_plan filter_empty_conv by (simp add: blocking_iff)
  have rw: "(\<forall>v \<in> set (violations (validate_request request classification hour weekday)).
        severity v = ''WARNING'') \<longrightarrow>
      allowed (validate_request request classification hour weekday)"
    unfolding allowed_validate_request filter_empty_conv using not_blocking by blast
  have pw: "(\<forall>v \<in> set (violations (validate_plan plan request)). severity v = ''WARNING'') \<longrightarrow>
      allowed (validate_plan plan request)"
    unfolding allowed_validate_plan filter_empty_conv using not_blocking by blast
  have c: "allowed (validate_request request classification hour' weekday') =
     allowed (validate_request request classification hour weekday)"
    unfolding allowed_validate_request
    using violations_validate_request_clock [of request classification hour' weekday' hour weekday]
    by simp
  from r p rw pw c show ?thesis by blast
qed

lemmas policy_defs =
  validate_request_def validate_plan_def validate_task_policies_def validate_time_policies_def
  validate_api_usage_def build_policy_constraints_def has_production_access_def blocking_def
  risk_exceeds_limit_def environment_policies_def prod_policy_def dict_get_opt_def dict_get_def
  str_of_opt_def lower_def lower_char_def

theorem allowed_iff_no_blocking_violation_witness:
  "map severity
     (violations
        (validate_request
           \<lparr> req_id = ''req-1'', user_id = ''Alice_Ops'', query = ''cancel order 1'',
             req_context = [], req_environment = Some ''prod'' \<rparr>
           \<lparr> task_id = Some CANCEL_ORDER, confidence = 0.9, extracted_entities = [],
             cls_environment = None, service = None \<rparr> 20 6)) = [''WARNING''] \<and>
   allowed
     (validate_request
        \<lparr> req_id = ''req-1'', user_id = ''Alice_Ops'', query = ''cancel order 1'',
          req_context = [], req_environment = Some ''prod'' \<rparr>
        \<lparr> task_id = Some CANCEL_ORDER, confidence = 0.9, extracted_entities = [],
          cls_environment = None, service = None \<rparr> 20 6) \<and>
   map severity
     (violations
        (validate_plan \<lparr> plan_summary = ''cancel'', plan_risk_level = ''HIGH'', rollback = [] \<rparr>
           \<lparr> req_id = ''req-1'', user_id = ''Alice_Ops'', query = ''cancel order 1'',
             req_context = [], req_environment = Some ''prod'' \<rparr>)) = [''ERROR'', ''ERROR''] \<and>
   \<not> allowed
     (validate_plan \<lparr> plan_summary = ''cancel'', plan_risk_level = ''HIGH'', rollback = [] \<rparr>
        \<lparr> req_id = ''req-1'', user_id = ''Alice_Ops'', query = ''cancel order 1'',
          req_context = [], req_environment = Some ''prod'' \<rparr>)"
  using allowed_iff_no_blocking_violation
          [of "\<lparr> req_id = ''req-1'', user_id = ''Alice_Ops'', query = ''cancel order 1'',
                 req_context = [], req_environment = Some ''prod'' \<rparr>"
              "\<lparr> task_id = Some CANCEL_ORDER, confidence = 0.9, extracted_entities = [],
                 cls_environment = None, service = None \<rparr>" 20 6
              "\<lparr> plan_summary = ''cancel'', plan_risk_level = ''HIGH'', rollback = [] \<rparr>" 9 0]
  by (simp add: policy_defs Let_def)

end
